theory Spec2Isabelle
  imports Complex_Main
begin

section \<open>Python values used by the data acquisition agent\<close>

text \<open>
  The agent module \<^verbatim>\<open>backend/agents/data_acquisition/agent.py\<close> is embedded function by
  function. Python \<^verbatim>\<open>float\<close> values are read as real numbers, so the properties below are
  about the arithmetic the code writes down and not about rounding. The price of a product
  is the exception: the code compares it and never computes with it, and it is a
  \<open>pyfloat\<close>, which also holds the two infinities and NaN. A Python \<^verbatim>\<open>str\<close> is a
  \<^typ>\<open>string\<close>; a character stands for the code point of the same number, which covers
  texts whose code points are below 256. A raised exception is the left injection of a sum.
\<close>

datatype exn =
    ValueError string
  | ValidationError string
  | Exception string
  | LibraryError string

fun str_exn :: "exn \<Rightarrow> string" where
  "str_exn (ValueError m) = m"
| "str_exn (ValidationError m) = m"
| "str_exn (Exception m) = m"
| "str_exn (LibraryError m) = m"

type_synonym datetime = real

text \<open>
  A float as a value: a number, an infinity or NaN. \<open>flt_less x y\<close> is the comparison
  \<^verbatim>\<open>x < y\<close> of two floats and \<open>flt_le x y\<close> is \<^verbatim>\<open>x <= y\<close>; \<^verbatim>\<open>x > y\<close> is \<open>flt_less y x\<close>. Every
  comparison with NaN is false.
\<close>

datatype pyfloat = Num real | PosInf | NegInf | NaN

fun flt_less :: "pyfloat \<Rightarrow> pyfloat \<Rightarrow> bool" where
  "flt_less NaN y = False"
| "flt_less x NaN = False"
| "flt_less (Num a) (Num b) = (a < b)"
| "flt_less (Num a) PosInf = True"
| "flt_less (Num a) NegInf = False"
| "flt_less PosInf y = False"
| "flt_less NegInf (Num b) = True"
| "flt_less NegInf PosInf = True"
| "flt_less NegInf NegInf = False"

definition flt_le :: "pyfloat \<Rightarrow> pyfloat \<Rightarrow> bool" where
  "flt_le x y = (x \<noteq> NaN \<and> y \<noteq> NaN \<and> (flt_less x y \<or> x = y))"

text \<open>
  \<^verbatim>\<open>str.isspace\<close> on one character: tab to carriage return, the four separators
  0x1C to 0x1F, the space, NEL and the no-break space.
\<close>

definition whitespace :: "char list" where
  "whitespace =
     [CHR 0x09, CHR 0x0A, CHR 0x0B, CHR 0x0C, CHR 0x0D, CHR 0x1C, CHR 0x1D, CHR 0x1E,
      CHR 0x1F, CHR 0x20, CHR 0x85, CHR 0xA0]"

definition isspace :: "char \<Rightarrow> bool" where
  "isspace c = (c \<in> set whitespace)"

definition strip :: "string \<Rightarrow> string" where
  "strip s = rev (dropWhile isspace (rev (dropWhile isspace s)))"

section \<open>The data model\<close>

text \<open>
  \<^verbatim>\<open>class ProductData(BaseModel)\<close>. The last two fields are the entries
  \<^verbatim>\<open>gps_latitude\<close> and \<^verbatim>\<open>gps_longitude\<close> that \<^verbatim>\<open>process_image\<close> stores in the object's
  \<^verbatim>\<open>__dict__\<close>.
\<close>

record ProductData =
  product_name :: string
  brand :: "string option"
  price :: "pyfloat option"
  unit :: "string option"
  shop_name :: "string option"
  category :: "string option"
  confidence_score :: real
  raw_text :: string
  processing_timestamp :: datetime
  gps_latitude :: "real option"
  gps_longitude :: "real option"

record ProcessingResult =
  success :: bool
  product_data :: "ProductData option"
  error_message :: "string option"
  processing_time_ms :: int
  image_quality_score :: "real option"

section \<open>Regular expressions as the parser uses them\<close>

text \<open>
  The five patterns of \<^verbatim>\<open>ProductDataParser.parse\<close> are sequences of quantified character
  classes that end in one capturing group. \<^verbatim>\<open>re.search\<close> is modelled for that fragment:
  greedy quantifiers that give characters back one at a time when the rest of the pattern
  fails, and the leftmost starting position that matches.
\<close>

datatype item = Ch char | Sp | Dg

datatype atom = A item | In "item list" | NotIn "item list"

datatype quant = Once | Plus | Star | Opt

type_synonym regex = "(atom \<times> quant) list"

definition ascii_lower :: "char \<Rightarrow> char" where
  "ascii_lower c =
     (if (65::nat) \<le> of_char c \<and> of_char c \<le> (90::nat) then char_of (of_char c + (32::nat)) else c)"

definition isdigit :: "char \<Rightarrow> bool" where
  "isdigit c = ((48::nat) \<le> of_char c \<and> of_char c \<le> (57::nat))"

text \<open>The flag is \<^verbatim>\<open>re.IGNORECASE\<close>; \<open>Sp\<close> is \<^verbatim>\<open>\s\<close> and \<open>Dg\<close> is \<^verbatim>\<open>\d\<close>.\<close>

fun item_match :: "bool \<Rightarrow> item \<Rightarrow> char \<Rightarrow> bool" where
  "item_match ic (Ch p) c = (c = p \<or> (ic \<and> ascii_lower c = ascii_lower p))"
| "item_match ic Sp c = isspace c"
| "item_match ic Dg c = isdigit c"

fun atom_match :: "bool \<Rightarrow> atom \<Rightarrow> char \<Rightarrow> bool" where
  "atom_match ic (A i) c = item_match ic i c"
| "atom_match ic (In is) c = list_ex (\<lambda>i. item_match ic i c) is"
| "atom_match ic (NotIn is) c = (\<not> list_ex (\<lambda>i. item_match ic i c) is)"

fun first_some :: "('a \<Rightarrow> 'b option) \<Rightarrow> 'a list \<Rightarrow> 'b option" where
  "first_some f [] = None"
| "first_some f (x # xs) = (case f x of Some y \<Rightarrow> Some y | None \<Rightarrow> first_some f xs)"

text \<open>
  The repetition counts a quantifier tries, in the order the backtracking matcher tries
  them, when \<open>n\<close> characters in a row match its class.
\<close>

fun counts :: "quant \<Rightarrow> nat \<Rightarrow> nat list" where
  "counts Once n = (if 1 \<le> n then [1] else [])"
| "counts Plus n = rev [1..<Suc n]"
| "counts Star n = rev [0..<Suc n]"
| "counts Opt n = (if 1 \<le> n then [1, 0] else [0])"

text \<open>\<open>bt ic r s k\<close> matches \<open>r\<close> at the start of \<open>s\<close> and hands the rest of the input to \<open>k\<close>.\<close>

fun bt :: "bool \<Rightarrow> regex \<Rightarrow> string \<Rightarrow> (string \<Rightarrow> 'a option) \<Rightarrow> 'a option" where
  "bt ic [] s k = k s"
| "bt ic ((a, q) # r) s k =
     first_some (\<lambda>j. bt ic r (drop j s) k) (counts q (length (takeWhile (atom_match ic a) s)))"

text \<open>The text the group captures when the prefix followed by the group matches at the start.\<close>

definition match_at :: "bool \<Rightarrow> regex \<Rightarrow> regex \<Rightarrow> string \<Rightarrow> string option" where
  "match_at ic pre grp s =
     bt ic pre s (\<lambda>s1. bt ic grp s1 (\<lambda>s2. Some (take (length s1 - length s2) s1)))"

text \<open>\<^verbatim>\<open>re.search(pattern, text, flags)\<close> followed by \<^verbatim>\<open>.group(1)\<close>; \<open>None\<close> is no match.\<close>

fun re_search :: "bool \<Rightarrow> regex \<Rightarrow> regex \<Rightarrow> string \<Rightarrow> string option" where
  "re_search ic pre grp [] = match_at ic pre grp []"
| "re_search ic pre grp (c # cs) =
     (case match_at ic pre grp (c # cs) of
        Some g \<Rightarrow> Some g
      | None \<Rightarrow> re_search ic pre grp cs)"

definition lit :: "string \<Rightarrow> regex" where
  "lit w = map (\<lambda>c. (A (Ch c), Once)) w"

text \<open>\<^verbatim>\<open>[:\s]+\<close>, \<^verbatim>\<open>([^\n]+)\<close> and \<^verbatim>\<open>(\d+\.?\d*)\<close>.\<close>

definition sep :: regex where
  "sep = [(In [Ch CHR '':'', Sp], Plus)]"

definition rest_of_line :: regex where
  "rest_of_line = [(NotIn [Ch CHR 0x0A], Plus)]"

definition number :: regex where
  "number = [(A Dg, Plus), (A (Ch CHR ''.''), Opt), (A Dg, Star)]"

text \<open>\<^verbatim>\<open>product[_ ]name[:\s]+\<close>, \<^verbatim>\<open>brand[:\s]+\<close>, \<^verbatim>\<open>price[:\s]+\<close>, \<^verbatim>\<open>unit[:\s]+\<close>, \<^verbatim>\<open>shop[_ ]name[:\s]+\<close>.\<close>

definition name_label :: regex where
  "name_label = lit ''product'' @ [(In [Ch CHR ''_'', Ch CHR '' ''], Once)] @ lit ''name'' @ sep"

definition brand_label :: regex where
  "brand_label = lit ''brand'' @ sep"

definition price_label :: regex where
  "price_label = lit ''price'' @ sep"

definition unit_label :: regex where
  "unit_label = lit ''unit'' @ sep"

definition shop_label :: regex where
  "shop_label = lit ''shop'' @ [(In [Ch CHR ''_'', Ch CHR '' ''], Once)] @ lit ''name'' @ sep"

text \<open>
  \<^verbatim>\<open>float(s)\<close> on the decimal forms the price group can capture: digits, optionally a
  point, optionally more digits. On any other string the model reports \<^verbatim>\<open>ValueError\<close>
  (Python accepts further forms, none of which the group produces). The result is the
  number the digits denote.
\<close>

definition digits_nat :: "string \<Rightarrow> nat" where
  "digits_nat ds = foldl (\<lambda>n c. 10 * n + (of_char c - 48)) 0 ds"

definition decimal_form :: "string \<Rightarrow> bool" where
  "decimal_form s =
     (let ip = takeWhile isdigit s; r = dropWhile isdigit s in
      ip \<noteq> [] \<and> (r = [] \<or> (hd r = CHR ''.'' \<and> list_all isdigit (tl r))))"

definition decimal_value :: "string \<Rightarrow> real" where
  "decimal_value s =
     (let ip = takeWhile isdigit s; r = dropWhile isdigit s in
      if r = [] then real (digits_nat ip)
      else real (digits_nat ip) + real (digits_nat (tl r)) / 10 ^ length (tl r))"

definition py_float :: "string \<Rightarrow> exn + pyfloat" where
  "py_float s = (if decimal_form s then Inr (Num (decimal_value s)) else Inl (ValueError s))"

section \<open>The collaborators of the agent\<close>

text \<open>
  The agent calls libraries and services that are not code of the repository: the image
  library, the OCR service, the prompt template engine, the text-generation service, the
  JSON decoder and the schema validation of the model class. They are the fields of \<open>deps\<close>;
  each returns its value or the exception it raises. \<open>cv2_imread\<close> returns \<open>None\<close> for a
  file it cannot decode. \<open>parse_prompt\<close> renders the prompt template of \<^verbatim>\<open>__init__\<close> around
  the OCR text. \<open>ProductData_of_json\<close> is \<^verbatim>\<open>ProductData(**data)\<close> on a decoded JSON value,
  built at the given time.
\<close>

datatype json =
    JNull
  | JBool bool
  | JNum real
  | JStr string
  | JArr "json list"
  | JObj "(string \<times> json) list"

record vision_response =
  response_error_message :: string
  text_annotations :: "string list"

record ('img, 'bytes) deps =
  cv2_imread :: "string \<Rightarrow> exn + 'img option"
  cv2_cvtColor :: "'img \<Rightarrow> exn + 'img"
  clahe_apply :: "'img \<Rightarrow> exn + 'img"
  cv2_fastNlMeansDenoising :: "'img \<Rightarrow> exn + 'img"
  cv2_filter2D :: "'img \<Rightarrow> exn + 'img"
  cv2_Laplacian_var :: "'img option \<Rightarrow> exn + real"
  np_mean :: "'img option \<Rightarrow> exn + real"
  read_file :: "string \<Rightarrow> exn + 'bytes"
  text_detection :: "'bytes \<Rightarrow> exn + vision_response"
  parse_prompt :: "string \<Rightarrow> string"
  llm :: "string \<Rightarrow> exn + string"
  json_loads :: "string \<Rightarrow> exn + json"
  ProductData_of_json :: "json \<Rightarrow> datetime \<Rightarrow> exn + ProductData"

section \<open>The output parser\<close>

text \<open>
  The dictionary \<^verbatim>\<open>product_data\<close> that the regular-expression branch fills: one optional
  entry per key it can set.
\<close>

record kwargs =
  kw_product_name :: "string option"
  kw_brand :: "string option"
  kw_price :: "pyfloat option"
  kw_unit :: "string option"
  kw_shop_name :: "string option"
  kw_raw_text :: "string option"
  kw_confidence_score :: "real option"

definition empty_kwargs :: kwargs where
  "empty_kwargs =
     \<lparr>kw_product_name = None, kw_brand = None, kw_price = None, kw_unit = None,
      kw_shop_name = None, kw_raw_text = None, kw_confidence_score = None\<rparr>"

text \<open>
  \<^verbatim>\<open>ProductData(**product_data)\<close> on such a dictionary: \<^verbatim>\<open>product_name\<close> is required, every
  other field has the default of the class.
\<close>

definition ProductData_of_kwargs :: "datetime \<Rightarrow> kwargs \<Rightarrow> exn + ProductData" where
  "ProductData_of_kwargs now kw =
     (case kw_product_name kw of
        None \<Rightarrow> Inl (ValidationError ''product_name: field required'')
      | Some n \<Rightarrow>
          Inr \<lparr>product_name = n, brand = kw_brand kw, price = kw_price kw, unit = kw_unit kw,
               shop_name = kw_shop_name kw, category = None,
               confidence_score = (case kw_confidence_score kw of None \<Rightarrow> 0 | Some c \<Rightarrow> c),
               raw_text = (case kw_raw_text kw of None \<Rightarrow> [] | Some t \<Rightarrow> t),
               processing_timestamp = now, gps_latitude = None, gps_longitude = None\<rparr>)"

definition startswith_brace :: "string \<Rightarrow> bool" where
  "startswith_brace s = (case strip s of [] \<Rightarrow> False | c # _ \<Rightarrow> c = CHR ''{'')"

text \<open>Lines 57 to 85: the dictionary the regular expressions fill, or the exception of \<^verbatim>\<open>float\<close>.\<close>

definition regex_kwargs :: "string \<Rightarrow> exn + kwargs" where
  "regex_kwargs text0 =
     (let d1 = (case re_search True name_label rest_of_line text0 of
                  Some g \<Rightarrow> empty_kwargs\<lparr>kw_product_name := Some (strip g)\<rparr>
                | None \<Rightarrow> empty_kwargs);
          d2 = (case re_search True brand_label rest_of_line text0 of
                  Some g \<Rightarrow> d1\<lparr>kw_brand := Some (strip g)\<rparr>
                | None \<Rightarrow> d1)
      in case (case re_search True price_label number text0 of
                 Some g \<Rightarrow> (case py_float g of Inl e \<Rightarrow> Inl e | Inr x \<Rightarrow> Inr (d2\<lparr>kw_price := Some x\<rparr>))
               | None \<Rightarrow> Inr d2) of
           Inl e \<Rightarrow> Inl e
         | Inr d3 \<Rightarrow>
            (let d4 = (case re_search True unit_label rest_of_line text0 of
                         Some g \<Rightarrow> d3\<lparr>kw_unit := Some (strip g)\<rparr>
                       | None \<Rightarrow> d3);
                 d5 = (case re_search True shop_label rest_of_line text0 of
                         Some g \<Rightarrow> d4\<lparr>kw_shop_name := Some (strip g)\<rparr>
                       | None \<Rightarrow> d4)
             in Inr (d5\<lparr>kw_raw_text := Some text0, kw_confidence_score := Some 0.7\<rparr>)))"

text \<open>The body of the \<^verbatim>\<open>try\<close> block of \<^verbatim>\<open>ProductDataParser.parse\<close>.\<close>

definition parse_body :: "('img, 'bytes) deps \<Rightarrow> datetime \<Rightarrow> string \<Rightarrow> exn + ProductData" where
  "parse_body env now text0 =
     (if startswith_brace text0 then
        (case json_loads env text0 of
           Inl e \<Rightarrow> Inl e
         | Inr data \<Rightarrow> ProductData_of_json env data now)
      else
        (case regex_kwargs text0 of
           Inl e \<Rightarrow> Inl e
         | Inr kw \<Rightarrow> ProductData_of_kwargs now kw))"

definition unknown_product :: "datetime \<Rightarrow> string \<Rightarrow> ProductData" where
  "unknown_product now text0 =
     \<lparr>product_name = ''Unknown Product'', brand = None, price = None, unit = None,
      shop_name = None, category = None, confidence_score = 0.1, raw_text = text0,
      processing_timestamp = now, gps_latitude = None, gps_longitude = None\<rparr>"

text \<open>\<^verbatim>\<open>ProductDataParser.parse\<close>: the \<^verbatim>\<open>except\<close> clause turns every exception into the sentinel.\<close>

definition parse :: "('img, 'bytes) deps \<Rightarrow> datetime \<Rightarrow> string \<Rightarrow> ProductData" where
  "parse env now text0 =
     (case parse_body env now text0 of
        Inr r \<Rightarrow> r
      | Inl e \<Rightarrow> unknown_product now text0)"

section \<open>The stages of the pipeline\<close>

text \<open>
  The methods whose Python names begin with an underscore keep their names without it.
\<close>

definition preprocess_body :: "('img, 'bytes) deps \<Rightarrow> string \<Rightarrow> exn + 'img" where
  "preprocess_body env image_path =
     (case cv2_imread env image_path of
        Inl e \<Rightarrow> Inl e
      | Inr None \<Rightarrow> Inl (ValueError (''Could not read image from '' @ image_path))
      | Inr (Some img) \<Rightarrow>
          (case cv2_cvtColor env img of
             Inl e \<Rightarrow> Inl e
           | Inr gray \<Rightarrow>
               (case clahe_apply env gray of
                  Inl e \<Rightarrow> Inl e
                | Inr enhanced \<Rightarrow>
                    (case cv2_fastNlMeansDenoising env enhanced of
                       Inl e \<Rightarrow> Inl e
                     | Inr denoised \<Rightarrow> cv2_filter2D env denoised))))"

definition preprocess_image :: "('img, 'bytes) deps \<Rightarrow> string \<Rightarrow> exn + 'img option" where
  "preprocess_image env image_path =
     (case preprocess_body env image_path of
        Inr sharpened \<Rightarrow> Inr (Some sharpened)
      | Inl e \<Rightarrow> cv2_imread env image_path)"

definition assess_body :: "('img, 'bytes) deps \<Rightarrow> 'img option \<Rightarrow> exn + real" where
  "assess_body env img =
     (case cv2_Laplacian_var env img of
        Inl e \<Rightarrow> Inl e
      | Inr laplacian_var \<Rightarrow>
          (let focus_score = min (laplacian_var / 500) 1.0 in
           case np_mean env img of
             Inl e \<Rightarrow> Inl e
           | Inr mean_brightness \<Rightarrow>
               (let brightness_score = 1.0 - \<bar>mean_brightness - 127\<bar> / 127;
                    quality_score = focus_score * 0.7 + brightness_score * 0.3
                in Inr (min quality_score 1.0))))"

definition assess_image_quality :: "('img, 'bytes) deps \<Rightarrow> 'img option \<Rightarrow> real" where
  "assess_image_quality env img =
     (case assess_body env img of
        Inr q \<Rightarrow> q
      | Inl e \<Rightarrow> 0.5)"

definition extract_body :: "('img, 'bytes) deps \<Rightarrow> string \<Rightarrow> exn + string" where
  "extract_body env image_path =
     (case read_file env image_path of
        Inl e \<Rightarrow> Inl e
      | Inr content \<Rightarrow>
          (case text_detection env content of
             Inl e \<Rightarrow> Inl e
           | Inr response \<Rightarrow>
               if response_error_message response \<noteq> []
               then Inl (Exception (''Vision API error: '' @ response_error_message response))
               else (case text_annotations response of
                       [] \<Rightarrow> Inr []
                     | description # _ \<Rightarrow> Inr description)))"

definition extract_text_with_vision_api :: "('img, 'bytes) deps \<Rightarrow> string \<Rightarrow> string" where
  "extract_text_with_vision_api env image_path =
     (case extract_body env image_path of
        Inr t \<Rightarrow> t
      | Inl e \<Rightarrow> [])"

definition no_text_detected :: "datetime \<Rightarrow> ProductData" where
  "no_text_detected now =
     \<lparr>product_name = ''No text detected'', brand = None, price = None, unit = None,
      shop_name = None, category = None, confidence_score = 0.0, raw_text = [],
      processing_timestamp = now, gps_latitude = None, gps_longitude = None\<rparr>"

definition parsing_failed :: "datetime \<Rightarrow> string \<Rightarrow> ProductData" where
  "parsing_failed now ocr_text =
     \<lparr>product_name = ''Parsing failed'', brand = None, price = None, unit = None,
      shop_name = None, category = None, confidence_score = 0.1, raw_text = ocr_text,
      processing_timestamp = now, gps_latitude = None, gps_longitude = None\<rparr>"

text \<open>
  \<^verbatim>\<open>_parse_with_llm\<close> returns the record and, beside it, the prompts it has sent to the
  text-generation service, in order: the trace of its calls to that service.
\<close>

definition parse_with_llm ::
  "('img, 'bytes) deps \<Rightarrow> datetime \<Rightarrow> string \<Rightarrow> ProductData \<times> string list" where
  "parse_with_llm env now ocr_text =
     (if strip ocr_text = [] then (no_text_detected now, [])
      else
        (let prompt = parse_prompt env ocr_text in
         case llm env prompt of
           Inl e \<Rightarrow> (parsing_failed now ocr_text, [prompt])
         | Inr response \<Rightarrow> ((parse env now response)\<lparr>raw_text := ocr_text\<rparr>, [prompt])))"

text \<open>\<^verbatim>\<open>int(x)\<close> on a float: truncation towards zero.\<close>

definition py_int :: "real \<Rightarrow> int" where
  "py_int x = (if 0 \<le> x then \<lfloor>x\<rfloor> else \<lceil>x\<rceil>)"

text \<open>
  \<^verbatim>\<open>process_image\<close>. The three clock readings of a run are arguments: \<open>start_time\<close>, the
  time \<open>now\<close> at which the product record is built, and \<open>end_time\<close>, in seconds. The
  argument \<^verbatim>\<open>metadata\<close> is never read by the method and is left out.
\<close>

definition process_image ::
  "('img, 'bytes) deps \<Rightarrow> datetime \<Rightarrow> datetime \<Rightarrow> datetime \<Rightarrow> string \<Rightarrow> (real \<times> real) option
     \<Rightarrow> ProcessingResult \<times> string list" where
  "process_image env start_time now end_time image_path gps_coords =
     (case preprocess_image env image_path of
        Inl e \<Rightarrow>
          (\<lparr>success = False, product_data = None, error_message = Some (str_exn e),
            processing_time_ms = py_int ((end_time - start_time) * 1000),
            image_quality_score = None\<rparr>, [])
      | Inr processed_image \<Rightarrow>
          (let quality_score = assess_image_quality env processed_image;
               ocr_text = extract_text_with_vision_api env image_path;
               (parsed, calls) = parse_with_llm env now ocr_text;
               adjusted =
                 (if confidence_score parsed > 0
                  then parsed\<lparr>confidence_score := confidence_score parsed * quality_score\<rparr>
                  else parsed);
               located =
                 (case gps_coords of
                    Some (lat, lon) \<Rightarrow> adjusted\<lparr>gps_latitude := Some lat, gps_longitude := Some lon\<rparr>
                  | None \<Rightarrow> adjusted)
           in (\<lparr>success = True, product_data = Some located, error_message = None,
                processing_time_ms = py_int ((end_time - start_time) * 1000),
                image_quality_score = Some quality_score\<rparr>, calls)))"

section \<open>The post-hoc validator\<close>


section \<open>Fixtures\<close>


text \<open>
  \<open>dq w\<close> is \<open>w\<close> between double quotes. \<open>tea_reply\<close> is the model response
  \<^verbatim>\<open>{"product_name": "Tea", "confidence_score": 5}\<close>; the other replies are not JSON, and
  \<open>brace_reply\<close> is a malformed answer that opens a brace.
\<close>

definition dq :: "string \<Rightarrow> string" where
  "dq w = CHR 0x22 # w @ [CHR 0x22]"

definition tea_reply :: string where
  "tea_reply = ''{'' @ dq ''product_name'' @ '': '' @ dq ''Tea'' @ '', '' @ dq ''confidence_score'' @ '': 5}''"

definition rice_reply :: string where
  "rice_reply = ''Product Name: Rice 5kg'' @ [CHR 0x0A] @ ''Price: 450''"

definition brace_reply :: string where
  "brace_reply = ''{Product Name: Rice 5kg''"

definition shadowed_reply :: string where
  "shadowed_reply = ''Price: 10'' @ [CHR 0x0A] @ rice_reply"

definition full_reply :: string where
  "full_reply =
     ''PRODUCT_NAME: Milk Powder '' @ [CHR 0x0A] @ ''brand: Anchor'' @ [CHR 0x0A] @
     ''Price: 850.50 LKR'' @ [CHR 0x0A] @ ''Unit:400g'' @ [CHR 0x0A] @ ''Shop name  Keells''"

text \<open>
  A decoder double: it agrees with \<^verbatim>\<open>json.loads\<close> on \<open>tea_reply\<close>, and on every text whose
  first character after the opening brace is a letter, which \<^verbatim>\<open>json.loads\<close> rejects
  with \<^verbatim>\<open>JSONDecodeError\<close>. The fixtures call it on no other text.
\<close>

definition json_double :: "string \<Rightarrow> exn + json" where
  "json_double text0 =
     (if text0 = tea_reply
      then Inr (JObj [(''product_name'', JStr ''Tea''), (''confidence_score'', JNum 5)])
      else Inl (LibraryError ''JSONDecodeError''))"

text \<open>
  A schema double: it agrees with \<^verbatim>\<open>ProductData(**data)\<close> on an object that holds a string
  under \<^verbatim>\<open>product_name\<close> and at most a number under \<^verbatim>\<open>confidence_score\<close>: the class puts no
  range constraint on that field.
\<close>

definition schema_double :: "json \<Rightarrow> datetime \<Rightarrow> exn + ProductData" where
  "schema_double data now =
     (case data of
        JObj [(k1, JStr n), (k2, JNum c)] \<Rightarrow>
          if k1 = ''product_name'' \<and> k2 = ''confidence_score''
          then Inr \<lparr>product_name = n, brand = None, price = None, unit = None,
                    shop_name = None, category = None, confidence_score = c, raw_text = [],
                    processing_timestamp = now, gps_latitude = None, gps_longitude = None\<rparr>
          else Inl (ValidationError ''validation error for ProductData'')
      | _ \<Rightarrow> Inl (ValidationError ''validation error for ProductData''))"

text \<open>
  \<open>fixture decoded lap mean_v ocr reply\<close>: the image file decodes to \<open>decoded\<close> (\<open>None\<close> for a
  file that cannot be decoded), the enhancement steps return their input, the Laplacian
  variance and the mean of a decoded image are \<open>lap\<close> and \<open>mean_v\<close> and both library calls
  raise on \<open>None\<close>, the OCR service reports the single annotation \<open>ocr\<close>, and the
  text-generation service answers \<open>reply\<close>.
\<close>

definition fixture ::
  "nat option \<Rightarrow> exn + real \<Rightarrow> exn + real \<Rightarrow> string \<Rightarrow> exn + string \<Rightarrow> (nat, nat) deps" where
  "fixture decoded lap mean_v ocr reply =
     \<lparr>cv2_imread = (\<lambda>p. Inr decoded),
      cv2_cvtColor = Inr,
      clahe_apply = Inr,
      cv2_fastNlMeansDenoising = Inr,
      cv2_filter2D = Inr,
      cv2_Laplacian_var = (\<lambda>i. case i of None \<Rightarrow> Inl (LibraryError ''cv2.error'') | Some _ \<Rightarrow> lap),
      np_mean = (\<lambda>i. case i of None \<Rightarrow> Inl (LibraryError ''TypeError'') | Some _ \<Rightarrow> mean_v),
      read_file = (\<lambda>p. Inr 0),
      text_detection = (\<lambda>b. Inr \<lparr>response_error_message = [], text_annotations = [ocr]\<rparr>),
      parse_prompt = (\<lambda>t. ''OCR Text from image: '' @ t),
      llm = (\<lambda>p. reply),
      json_loads = json_double,
      ProductData_of_json = schema_double\<rparr>"

section \<open>Strings\<close>

lemma strip_Nil: "strip [] = []"
  by (simp add: strip_def)


lemma strip_empty_iff: "strip s = [] \<longleftrightarrow> (\<forall>c\<in>set s. isspace c)"
proof
  assume "strip s = []"
  then have a: "\<forall>c\<in>set (dropWhile isspace s). isspace c"
    by (simp add: strip_def dropWhile_eq_Nil_conv)
  show "\<forall>c\<in>set s. isspace c"
  proof (cases "dropWhile isspace s")
    case Nil
    then show ?thesis by (simp add: dropWhile_eq_Nil_conv)
  next
    case (Cons x xs)
    then have "\<not> isspace x" using hd_dropWhile [of isspace s] by simp
    moreover have "isspace x" using a Cons by simp
    ultimately show ?thesis by simp
  qed
next
  assume "\<forall>c\<in>set s. isspace c"
  then have d: "dropWhile isspace s = []" by (simp add: dropWhile_eq_Nil_conv)
  show "strip s = []" unfolding strip_def d by simp
qed

section \<open>The matcher\<close>

text \<open>
  What a successful match hands to its continuation, and the shape of every capture of
  the number group: it is a text that \<^verbatim>\<open>float\<close> accepts.
\<close>

lemma first_some_SomeD: "first_some f xs = Some y \<Longrightarrow> \<exists>x\<in>set xs. f x = Some y"
  by (induction xs) (auto split: option.splits)

lemma bt_SomeD: "bt ic r s k = Some g \<Longrightarrow> \<exists>s'. k s' = Some g"
proof (induction r arbitrary: s)
  case Nil
  then show ?case by auto
next
  case (Cons aq r)
  obtain a q where aq: "aq = (a, q)" by (cases aq)
  from Cons.prems obtain j where "bt ic r (drop j s) k = Some g"
    unfolding aq by (auto dest!: first_some_SomeD)
  then show ?case by (rule Cons.IH)
qed

lemma match_at_SomeD:
  "match_at ic pre grp s = Some g \<Longrightarrow>
     \<exists>s1. bt ic grp s1 (\<lambda>s2. Some (take (length s1 - length s2) s1)) = Some g"
  unfolding match_at_def by (drule bt_SomeD) simp

lemma re_search_SomeD:
  "re_search ic pre grp s = Some g \<Longrightarrow> \<exists>s1. match_at ic pre grp s1 = Some g"
  by (induction s) (auto split: option.splits)

lemma ascii_lower_dot: "ascii_lower c = CHR ''.'' \<longleftrightarrow> c = CHR ''.''"
proof (cases "(65::nat) \<le> of_char c \<and> of_char c \<le> (90::nat)")
  case True
  have "char_of (of_char c + (32::nat)) \<noteq> CHR ''.''"
  proof
    assume "char_of (of_char c + (32::nat)) = CHR ''.''"
    then have "(of_char (char_of (of_char c + (32::nat))) :: nat) = of_char CHR ''.''" by simp
    then have "(of_char c + (32::nat)) mod 256 = 46" by (simp add: of_char_of)
    with True show False by simp
  qed
  moreover have "c \<noteq> CHR ''.''" using True by auto
  ultimately show ?thesis using True by (simp add: ascii_lower_def)
next
  case False
  then show ?thesis by (auto simp: ascii_lower_def)
qed

lemma atom_match_digit: "atom_match ic (A Dg) = isdigit"
  by (rule ext) simp

lemma atom_match_dot: "atom_match ic (A (Ch CHR ''.'')) = (\<lambda>c. c = CHR ''.'')"
proof (rule ext)
  fix c
  have dot: "ascii_lower CHR ''.'' = CHR ''.''" by (simp add: ascii_lower_def)
  show "atom_match ic (A (Ch CHR ''.'')) c = (c = CHR ''.'')"
    by (auto simp: dot ascii_lower_dot)
qed

lemma not_isdigit_dot: "\<not> isdigit CHR ''.''"
  by (simp add: isdigit_def)

lemma bt_opt_star:
  "bt ic [(A (Ch CHR ''.''), Opt), (A Dg, Star)] r (\<lambda>s2. Some (F s2)) =
     (if r \<noteq> [] \<and> hd r = CHR ''.'' then Some (F (dropWhile isdigit (tl r)))
      else Some (F (dropWhile isdigit r)))"
proof (cases r)
  case Nil
  then show ?thesis by (simp add: atom_match_digit)
next
  case (Cons c t)
  then show ?thesis
    by (simp add: atom_match_digit atom_match_dot dropWhile_eq_drop)
qed

lemma bt_number:
  "bt ic number s1 (\<lambda>s2. Some (F s2)) =
     (if takeWhile isdigit s1 = [] then None
      else (let r = dropWhile isdigit s1 in
            if r \<noteq> [] \<and> hd r = CHR ''.'' then Some (F (dropWhile isdigit (tl r)))
            else Some (F r)))"
proof (cases "takeWhile isdigit s1 = []")
  case True
  then show ?thesis by (simp add: number_def atom_match_digit)
next
  case False
  define n where "n = length (takeWhile isdigit s1)"
  have n: "1 \<le> n" using False by (simp add: n_def Suc_le_eq)
  have c: "counts Plus n = n # rev [1..<n]" using n by simp
  have d: "drop n s1 = dropWhile isdigit s1" by (simp add: n_def dropWhile_eq_drop)
  have "bt ic number s1 (\<lambda>s2. Some (F s2)) =
          first_some (\<lambda>j. bt ic [(A (Ch CHR ''.''), Opt), (A Dg, Star)] (drop j s1) (\<lambda>s2. Some (F s2)))
            (counts Plus n)"
    by (simp add: number_def atom_match_digit n_def del: counts.simps bt.simps(2))
       (simp add: atom_match_digit)
  also have "\<dots> = bt ic [(A (Ch CHR ''.''), Opt), (A Dg, Star)] (dropWhile isdigit s1) (\<lambda>s2. Some (F s2))"
  proof -
    have "\<exists>y. bt ic [(A (Ch CHR ''.''), Opt), (A Dg, Star)] (drop n s1) (\<lambda>s2. Some (F s2)) = Some y"
      unfolding bt_opt_star by (cases "drop n s1 \<noteq> [] \<and> hd (drop n s1) = CHR ''.''") simp_all
    then obtain y where y: "bt ic [(A (Ch CHR ''.''), Opt), (A Dg, Star)] (drop n s1) (\<lambda>s2. Some (F s2)) = Some y"
      by blast
    show ?thesis unfolding c using y by (simp add: d del: bt.simps)
  qed
  also have "\<dots> =
      (if dropWhile isdigit s1 \<noteq> [] \<and> hd (dropWhile isdigit s1) = CHR ''.''
       then Some (F (dropWhile isdigit (tl (dropWhile isdigit s1))))
       else Some (F (dropWhile isdigit (dropWhile isdigit s1))))"
    by (rule bt_opt_star)
  also have "dropWhile isdigit (dropWhile isdigit s1) = dropWhile isdigit s1"
    by (rule dropWhile_idem)
  finally have "bt ic number s1 (\<lambda>s2. Some (F s2)) =
      (if dropWhile isdigit s1 \<noteq> [] \<and> hd (dropWhile isdigit s1) = CHR ''.''
       then Some (F (dropWhile isdigit (tl (dropWhile isdigit s1))))
       else Some (F (dropWhile isdigit s1)))" .
  with False show ?thesis by (simp only: Let_def if_False)
qed


lemma decimal_form_int:
  assumes "ds \<noteq> []" "\<forall>c\<in>set ds. isdigit c"
  shows "decimal_form ds"
proof -
  have tw: "takeWhile isdigit ds = ds" using assms(2) by (simp add: takeWhile_eq_all_conv)
  have dw: "dropWhile isdigit ds = []" using assms(2) by (simp add: dropWhile_eq_Nil_conv)
  show ?thesis unfolding decimal_form_def Let_def tw dw using assms(1) by simp
qed

lemma decimal_form_frac:
  assumes "ds \<noteq> []" "\<forall>c\<in>set ds. isdigit c" "\<forall>c\<in>set es. isdigit c"
  shows "decimal_form (ds @ CHR ''.'' # es)"
proof -
  have tw: "takeWhile isdigit (ds @ CHR ''.'' # es) = ds"
    using assms(2) by (simp add: not_isdigit_dot)
  have dw: "dropWhile isdigit (ds @ CHR ''.'' # es) = CHR ''.'' # es"
    using assms(2) by (simp add: not_isdigit_dot)
  show ?thesis unfolding decimal_form_def Let_def tw dw using assms(1,3) by (simp add: list_all_iff)
qed

lemma take_length_diff: "s1 = w @ s2 \<Longrightarrow> take (length s1 - length s2) s1 = w"
  by simp

lemma number_capture_form:
  assumes "bt ic number s1 (\<lambda>s2. Some (take (length s1 - length s2) s1)) = Some g"
  shows "decimal_form g"
proof -
  define ip where "ip = takeWhile isdigit s1"
  define r where "r = dropWhile isdigit s1"
  have s1: "s1 = ip @ r" by (simp add: ip_def r_def)
  have ipd: "\<forall>c\<in>set ip. isdigit c" unfolding ip_def by (auto dest: set_takeWhileD)
  from assms have ne: "ip \<noteq> []"
    unfolding bt_number ip_def by (auto split: if_splits)
  from assms ne have g: "g = (if r \<noteq> [] \<and> hd r = CHR ''.''
      then take (length s1 - length (dropWhile isdigit (tl r))) s1
      else take (length s1 - length r) s1)"
    unfolding bt_number ip_def r_def Let_def by (auto split: if_splits)
  show ?thesis
  proof (cases "r \<noteq> [] \<and> hd r = CHR ''.''")
    case False
    have "take (length s1 - length r) s1 = ip" using s1 by (rule take_length_diff)
    then have "g = ip" using g False by (simp only: if_False)
    then show ?thesis using ne ipd by (simp add: decimal_form_int)
  next
    case True
    then obtain t where t: "r = CHR ''.'' # t" by (cases r) auto
    have "s1 = (ip @ CHR ''.'' # takeWhile isdigit t) @ dropWhile isdigit t"
      using s1 t by simp
    then have "take (length s1 - length (dropWhile isdigit t)) s1 = ip @ CHR ''.'' # takeWhile isdigit t"
      by (rule take_length_diff)
    then have "g = ip @ CHR ''.'' # takeWhile isdigit t" using g True t by simp
    moreover have "\<forall>c\<in>set (takeWhile isdigit t). isdigit c" by (auto dest: set_takeWhileD)
    ultimately show ?thesis using ne ipd by (simp add: decimal_form_frac)
  qed
qed

lemma re_search_number_form:
  assumes "re_search ic pre number s = Some g"
  shows "decimal_form g"
proof -
  from assms obtain s0 where "match_at ic pre number s0 = Some g"
    by (blast dest: re_search_SomeD)
  then obtain s1 where "bt ic number s1 (\<lambda>s2. Some (take (length s1 - length s2) s1)) = Some g"
    by (blast dest: match_at_SomeD)
  then show ?thesis by (rule number_capture_form)
qed

section \<open>The regular-expression branch of the parser\<close>

text \<open>
  The dictionary the branch builds, and the record the parser returns on a response that
  does not start with a brace. The conversion of the price never raises.
\<close>

lemma regex_kwargs_eq:
  "regex_kwargs text0 =
     Inr \<lparr>kw_product_name = map_option strip (re_search True name_label rest_of_line text0),
          kw_brand = map_option strip (re_search True brand_label rest_of_line text0),
          kw_price = map_option (\<lambda>g. Num (decimal_value g)) (re_search True price_label number text0),
          kw_unit = map_option strip (re_search True unit_label rest_of_line text0),
          kw_shop_name = map_option strip (re_search True shop_label rest_of_line text0),
          kw_raw_text = Some text0,
          kw_confidence_score = Some 0.7\<rparr>"
proof -
  have p: "py_float g = Inr (Num (decimal_value g))"
    if "re_search True price_label number text0 = Some g" for g
    using re_search_number_form [OF that] by (simp add: py_float_def)
  show ?thesis
    unfolding regex_kwargs_def Let_def empty_kwargs_def
    by (cases "re_search True name_label rest_of_line text0";
        cases "re_search True brand_label rest_of_line text0";
        cases "re_search True price_label number text0";
        cases "re_search True unit_label rest_of_line text0";
        cases "re_search True shop_label rest_of_line text0")
       (simp_all add: p del: re_search.simps)
qed

lemma parse_regex:
  assumes "\<not> startswith_brace text0"
  shows "parse env now text0 =
     (case re_search True name_label rest_of_line text0 of
        None \<Rightarrow> unknown_product now text0
      | Some n \<Rightarrow>
          \<lparr>product_name = strip n,
           brand = map_option strip (re_search True brand_label rest_of_line text0),
           price = map_option (\<lambda>g. Num (decimal_value g)) (re_search True price_label number text0),
           unit = map_option strip (re_search True unit_label rest_of_line text0),
           shop_name = map_option strip (re_search True shop_label rest_of_line text0),
           category = None, confidence_score = 0.7, raw_text = text0,
           processing_timestamp = now, gps_latitude = None, gps_longitude = None\<rparr>)"
  using assms
  by (simp add: parse_def parse_body_def regex_kwargs_eq ProductData_of_kwargs_def
      split: option.splits del: re_search.simps)

section \<open>Evaluation at the fixtures\<close>

lemma strip_fixtures:
  "strip ''Rice 5kg'' = ''Rice 5kg''"
  "strip ''Tea 300'' = ''Tea 300''"
  "strip ''Rice'' = ''Rice''"
  "strip ''  '' = []"
  "strip '' '' = []"
  "strip ''Milk Powder '' = ''Milk Powder''"
  "strip ''Anchor'' = ''Anchor''"
  "strip ''400g'' = ''400g''"
  "strip ''Keells'' = ''Keells''"
  by (simp_all add: strip_def isspace_def whitespace_def)

lemma startswith_brace_fixtures:
  "\<not> startswith_brace ''hello''"
  "\<not> startswith_brace rice_reply"
  "\<not> startswith_brace ''Price: 450''"
  "\<not> startswith_brace shadowed_reply"
  "\<not> startswith_brace full_reply"
  "startswith_brace brace_reply"
  "startswith_brace tea_reply"
  by (simp_all add: startswith_brace_def strip_def isspace_def whitespace_def rice_reply_def
      shadowed_reply_def full_reply_def brace_reply_def tea_reply_def dq_def)

lemma decimal_value_fixtures:
  "decimal_value ''450'' = 450"
  "decimal_value ''10'' = 10"
  "decimal_value ''850.50'' = 850.5"
  by (simp_all add: decimal_value_def Let_def isdigit_def digits_nat_def)

lemma re_hello:
  "re_search True name_label rest_of_line ''hello'' = None"
  "re_search True brand_label rest_of_line ''hello'' = None"
  "re_search True price_label number ''hello'' = None"
  "re_search True unit_label rest_of_line ''hello'' = None"
  "re_search True shop_label rest_of_line ''hello'' = None"
  by code_simp+

lemma re_rice:
  "re_search True name_label rest_of_line rice_reply = Some ''Rice 5kg''"
  "re_search True brand_label rest_of_line rice_reply = None"
  "re_search True price_label number rice_reply = Some ''450''"
  "re_search True unit_label rest_of_line rice_reply = None"
  "re_search True shop_label rest_of_line rice_reply = None"
  by code_simp+



lemma re_price_only:
  "re_search True name_label rest_of_line ''Price: 450'' = None"
  "re_search True price_label number ''Price: 450'' = Some ''450''"
  by code_simp+

lemma re_shadowed:
  "re_search True name_label rest_of_line shadowed_reply = Some ''Rice 5kg''"
  "re_search True price_label number shadowed_reply = Some ''10''"
  by code_simp+

lemma json_double_brace: "json_double brace_reply = Inl (LibraryError ''JSONDecodeError'')"
  by (simp add: json_double_def brace_reply_def tea_reply_def dq_def)

lemma fixture_preprocess: "preprocess_image (fixture d l m ocr reply) p = Inr d"
  by (cases d) (simp_all add: preprocess_image_def preprocess_body_def fixture_def)

lemma fixture_extract: "extract_text_with_vision_api (fixture d l m ocr reply) p = ocr"
  by (simp add: extract_text_with_vision_api_def extract_body_def fixture_def)

lemma fixture_llm:
  "llm (fixture d l m ocr reply) x = reply"
  "parse_prompt (fixture d l m ocr reply) t = ''OCR Text from image: '' @ t"
  "json_loads (fixture d l m ocr reply) = json_double"
  by (simp_all add: fixture_def)

lemma parse_hello: "parse env now ''hello'' = unknown_product now ''hello''"
  by (simp add: parse_regex startswith_brace_fixtures re_hello del: re_search.simps)

lemma parse_rice:
  "parse env now rice_reply =
     \<lparr>product_name = ''Rice 5kg'', brand = None, price = Some (Num 450), unit = None,
      shop_name = None, category = None, confidence_score = 0.7, raw_text = rice_reply,
      processing_timestamp = now, gps_latitude = None, gps_longitude = None\<rparr>"
  by (simp add: parse_regex startswith_brace_fixtures re_rice strip_fixtures decimal_value_fixtures
      del: re_search.simps)

lemma parse_tea:
  "parse (fixture d l m ocr reply) now tea_reply =
     \<lparr>product_name = ''Tea'', brand = None, price = None, unit = None,
      shop_name = None, category = None, confidence_score = 5, raw_text = [],
      processing_timestamp = now, gps_latitude = None, gps_longitude = None\<rparr>"
  by (simp add: parse_def parse_body_def startswith_brace_fixtures fixture_def json_double_def
      schema_double_def)

section \<open>The quality score\<close>

lemma assess_image_quality_formula:
  "assess_image_quality env img =
     (case cv2_Laplacian_var env img of
        Inl e \<Rightarrow> 0.5
      | Inr v \<Rightarrow>
          (case np_mean env img of
             Inl e \<Rightarrow> 0.5
           | Inr m \<Rightarrow> min (0.7 * min (v / 500) 1 + 0.3 * (1 - \<bar>m - 127\<bar> / 127)) 1))"
  by (simp add: assess_image_quality_def assess_body_def Let_def mult.commute split: sum.splits)

lemma assess_image_quality_le_1: "assess_image_quality env img \<le> 1"
  by (simp add: assess_image_quality_def assess_body_def Let_def split: sum.splits)

text \<open>
  The score is not negative for a non-negative variance and a mean intensity of at most
  254; above 254 the brightness term is negative.
\<close>

lemma assess_image_quality_nonneg:
  assumes "cv2_Laplacian_var env img = Inr v" "np_mean env img = Inr m" "0 \<le> v" "0 \<le> m" "m \<le> 254"
  shows "0 \<le> assess_image_quality env img"
proof -
  have "\<bar>m - 127\<bar> \<le> 127" using assms by (simp add: abs_le_iff)
  then have b: "0 \<le> 1 - \<bar>m - 127\<bar> / 127" by simp
  have f: "0 \<le> min (v / 500) 1" using assms by simp
  have "0 \<le> 0.7 * min (v / 500) 1 + 0.3 * (1 - \<bar>m - 127\<bar> / 127)"
    using b f by (intro add_nonneg_nonneg mult_nonneg_nonneg) simp_all
  then show ?thesis using assms by (simp add: assess_image_quality_formula)
qed

lemma fixture_quality:
  "assess_image_quality (fixture d (Inr v) (Inr m) ocr reply) (Some x) =
     min (0.7 * min (v / 500) 1 + 0.3 * (1 - \<bar>m - 127\<bar> / 127)) 1"
  "assess_image_quality (fixture d l mv ocr reply) None = 0.5"
  by (simp_all add: assess_image_quality_formula fixture_def)

text \<open>
  C7. The quality assessor returns the weighted sum of focus and brightness clamped to
  [0, 1]. The code clamps from above only: for an image whose every pixel is 255 (Laplacian
  variance 0, mean 255) it returns a negative score, against its own documentation
  ("Returns score from 0.0 to 1.0").
\<close>

theorem white_image_quality_negative:
  "assess_image_quality (fixture (Some 0) (Inr 0) (Inr 255) [] (Inr [])) (Some 0) = - 3 / 1270
   \<and> assess_image_quality (fixture (Some 0) (Inr 0) (Inr 255) [] (Inr [])) (Some 0) < 0"
  by (simp add: fixture_quality)

section \<open>Structured extraction\<close>

lemma parse_with_llm_blank:
  "strip ocr_text = [] \<Longrightarrow> parse_with_llm env now ocr_text = (no_text_detected now, [])"
  by (simp add: parse_with_llm_def)

lemma parse_with_llm_raise:
  "strip ocr_text \<noteq> [] \<Longrightarrow> llm env (parse_prompt env ocr_text) = Inl e \<Longrightarrow>
     parse_with_llm env now ocr_text = (parsing_failed now ocr_text, [parse_prompt env ocr_text])"
  by (simp add: parse_with_llm_def)

lemma parse_with_llm_reply:
  "strip ocr_text \<noteq> [] \<Longrightarrow> llm env (parse_prompt env ocr_text) = Inr response \<Longrightarrow>
     parse_with_llm env now ocr_text =
       ((parse env now response)\<lparr>raw_text := ocr_text\<rparr>, [parse_prompt env ocr_text])"
  by (simp add: parse_with_llm_def)

text \<open>
  C5. For every empty or whitespace-only OCR text the structured extractor answers at
  once: the product name is "No text detected", the confidence is 0.0, and no prompt is
  sent to the text-generation service.
\<close>

theorem blank_text_short_circuit:
  assumes "\<forall>c\<in>set ocr_text. isspace c"
  shows "product_name (fst (parse_with_llm env now ocr_text)) = ''No text detected''
         \<and> confidence_score (fst (parse_with_llm env now ocr_text)) = 0
         \<and> snd (parse_with_llm env now ocr_text) = []"
  using assms by (simp add: parse_with_llm_blank strip_empty_iff no_text_detected_def)

theorem blank_text_short_circuit_witness:
  "product_name (fst (parse_with_llm (fixture (Some 0) (Inr 500) (Inr 127) ''  '' (Inr rice_reply)) 0 ''  ''))
     = ''No text detected''
   \<and> confidence_score (fst (parse_with_llm (fixture (Some 0) (Inr 500) (Inr 127) ''  '' (Inr rice_reply)) 0 ''  '')) = 0
   \<and> snd (parse_with_llm (fixture (Some 0) (Inr 500) (Inr 127) ''  '' (Inr rice_reply)) 0 ''  '') = []"
proof -
  have "\<forall>c\<in>set ''  ''. isspace c" by (simp add: isspace_def whitespace_def)
  then show ?thesis by (rule blank_text_short_circuit)
qed

text \<open>
  The claim that \<^verbatim>\<open>raw_text\<close> is exactly the OCR input in every record of the stage fails
  on an input of one space: the short circuit stores the empty string.
\<close>

theorem raw_text_counterexample:
  "raw_text (fst (parse_with_llm (fixture (Some 0) (Inr 500) (Inr 127) '' '' (Inr rice_reply)) 0 '' '')) = []
   \<and> raw_text (fst (parse_with_llm (fixture (Some 0) (Inr 500) (Inr 127) '' '' (Inr rice_reply)) 0 '' '')) \<noteq> '' ''"
  by (simp add: parse_with_llm_blank strip_fixtures no_text_detected_def)

text \<open>
  C9, as amended. In every record the stage produces from an OCR text that is not blank,
  \<^verbatim>\<open>raw_text\<close> is exactly the OCR input: on the JSON path, on the regular-expression path
  and when the service or the parser fails, whatever the model echoed back. For an empty
  or whitespace-only OCR text \<^verbatim>\<open>raw_text\<close> is the empty string.
\<close>

theorem raw_text_of_parse_with_llm:
  "raw_text (fst (parse_with_llm env now ocr_text)) = (if strip ocr_text = [] then [] else ocr_text)"
  by (simp add: parse_with_llm_def no_text_detected_def parsing_failed_def Let_def split: sum.splits)

theorem raw_text_of_parse_with_llm_witness:
  "raw_text (fst (parse_with_llm (fixture (Some 0) (Inr 500) (Inr 127) ''Tea 300'' (Inr tea_reply)) 0 ''Tea 300''))
     = ''Tea 300''
   \<and> raw_text (fst (parse_with_llm (fixture (Some 0) (Inr 500) (Inr 127) ''Tea 300'' (Inr ''hello'')) 0 ''Tea 300''))
     = ''Tea 300''
   \<and> raw_text (fst (parse_with_llm (fixture (Some 0) (Inr 500) (Inr 127) ''Tea 300'' (Inl (LibraryError ''timeout''))) 0 ''Tea 300''))
     = ''Tea 300''"
  using raw_text_of_parse_with_llm [of "fixture (Some 0) (Inr 500) (Inr 127) ''Tea 300'' (Inr tea_reply)" 0 "''Tea 300''"]
    raw_text_of_parse_with_llm [of "fixture (Some 0) (Inr 500) (Inr 127) ''Tea 300'' (Inr ''hello'')" 0 "''Tea 300''"]
    raw_text_of_parse_with_llm [of "fixture (Some 0) (Inr 500) (Inr 127) ''Tea 300'' (Inl (LibraryError ''timeout''))" 0 "''Tea 300''"]
  by (simp add: strip_fixtures)

text \<open>
  C10. Whenever the body of \<^verbatim>\<open>ProductDataParser.parse\<close> raises, the parser returns the
  sentinel: product name "Unknown Product", confidence 0.1, \<^verbatim>\<open>raw_text\<close> the response. That
  covers a response that starts with a brace and is rejected by the JSON decoder, which
  never reaches the regular expressions, and a response without a brace in which no
  product-name line matches, so that the required field is missing.
\<close>

theorem parse_failure_sentinel:
  assumes "(startswith_brace text0 \<and> (\<exists>e. json_loads env text0 = Inl e))
         \<or> (\<not> startswith_brace text0 \<and> re_search True name_label rest_of_line text0 = None)
         \<or> (\<exists>e. parse_body env now text0 = Inl e)"
  shows "parse env now text0 = unknown_product now text0
       \<and> product_name (parse env now text0) = ''Unknown Product''
       \<and> confidence_score (parse env now text0) = 0.1
       \<and> raw_text (parse env now text0) = text0"
proof -
  have "parse env now text0 = unknown_product now text0"
    using assms
  proof (elim disjE conjE exE)
    fix e assume "startswith_brace text0" "json_loads env text0 = Inl e"
    then show ?thesis by (simp add: parse_def parse_body_def)
  next
    assume "\<not> startswith_brace text0" "re_search True name_label rest_of_line text0 = None"
    then show ?thesis by (simp add: parse_regex del: re_search.simps)
  next
    fix e assume "parse_body env now text0 = Inl e"
    then show ?thesis by (simp add: parse_def)
  qed
  then show ?thesis by (simp add: unknown_product_def)
qed

theorem parse_failure_sentinel_witness:
  "parse (fixture (Some 0) (Inr 500) (Inr 127) ''Tea 300'' (Inr brace_reply)) 0 brace_reply
     = unknown_product 0 brace_reply
   \<and> product_name (parse (fixture (Some 0) (Inr 500) (Inr 127) ''Tea 300'' (Inr brace_reply)) 0 brace_reply)
       = ''Unknown Product''
   \<and> confidence_score (parse (fixture (Some 0) (Inr 500) (Inr 127) ''Tea 300'' (Inr brace_reply)) 0 brace_reply)
       = 0.1
   \<and> raw_text (parse (fixture (Some 0) (Inr 500) (Inr 127) ''Tea 300'' (Inr brace_reply)) 0 brace_reply)
       = brace_reply
   \<and> parse (fixture (Some 0) (Inr 500) (Inr 127) ''Tea 300'' (Inr ''hello'')) 0 ''hello''
       = unknown_product 0 ''hello''"
proof -
  let ?env = "fixture (Some 0) (Inr 500) (Inr 127) ''Tea 300'' (Inr brace_reply)"
  let ?env' = "fixture (Some 0) (Inr 500) (Inr 127) ''Tea 300'' (Inr ''hello'')"
  have "startswith_brace brace_reply \<and> (\<exists>e. json_loads ?env brace_reply = Inl e)"
    by (simp add: startswith_brace_fixtures fixture_llm json_double_brace)
  then have a: "(startswith_brace brace_reply \<and> (\<exists>e. json_loads ?env brace_reply = Inl e))
         \<or> (\<not> startswith_brace brace_reply \<and> re_search True name_label rest_of_line brace_reply = None)
         \<or> (\<exists>e. parse_body ?env 0 brace_reply = Inl e)"
    by blast
  have "\<not> startswith_brace ''hello'' \<and> re_search True name_label rest_of_line ''hello'' = None"
    using startswith_brace_fixtures(1) re_hello(1) by blast
  then have b: "(startswith_brace ''hello'' \<and> (\<exists>e. json_loads ?env' ''hello'' = Inl e))
         \<or> (\<not> startswith_brace ''hello'' \<and> re_search True name_label rest_of_line ''hello'' = None)
         \<or> (\<exists>e. parse_body ?env' 0 ''hello'' = Inl e)"
    by blast
  from parse_failure_sentinel [OF a] parse_failure_sentinel [OF b] show ?thesis by blast
qed

text \<open>
  The claim that a failure of the fallback parser yields "Parsing failed" fails when the
  model answers \<open>hello\<close>: the body of the parser raises, its own handler returns the
  sentinel, and the stage returns "Unknown Product".
\<close>

theorem parsing_failed_counterexample:
  "llm (fixture (Some 0) (Inr 500) (Inr 127) ''Tea 300'' (Inr ''hello'')) (''OCR Text from image: Tea 300'')
     = Inr ''hello''
   \<and> parse_body (fixture (Some 0) (Inr 500) (Inr 127) ''Tea 300'' (Inr ''hello'')) 0 ''hello''
     = Inl (ValidationError ''product_name: field required'')
   \<and> product_name (fst (parse_with_llm (fixture (Some 0) (Inr 500) (Inr 127) ''Tea 300'' (Inr ''hello'')) 0 ''Tea 300''))
     = ''Unknown Product''
   \<and> product_name (fst (parse_with_llm (fixture (Some 0) (Inr 500) (Inr 127) ''Tea 300'' (Inr ''hello'')) 0 ''Tea 300''))
     \<noteq> ''Parsing failed''"
proof -
  let ?env = "fixture (Some 0) (Inr 500) (Inr 127) ''Tea 300'' (Inr ''hello'')"
  have a: "parse_body ?env 0 ''hello'' = Inl (ValidationError ''product_name: field required'')"
    by (simp add: parse_body_def startswith_brace_fixtures regex_kwargs_eq re_hello
        ProductData_of_kwargs_def del: re_search.simps)
  have "strip ''Tea 300'' \<noteq> []" by (simp add: strip_fixtures)
  then have b: "parse_with_llm ?env 0 ''Tea 300'' =
      ((parse ?env 0 ''hello'')\<lparr>raw_text := ''Tea 300''\<rparr>, [''OCR Text from image: Tea 300''])"
    by (simp add: parse_with_llm_reply fixture_llm)
  show ?thesis using a by (simp add: b fixture_llm parse_hello unknown_product_def)
qed

text \<open>
  C4, as amended. When the call to the text-generation service raises, the result has
  product name "Parsing failed", confidence 0.1 and the OCR input as \<^verbatim>\<open>raw_text\<close>. When the
  service answers and the body of the parser raises, the result has product name
  "Unknown Product", confidence 0.1 and the OCR input as \<^verbatim>\<open>raw_text\<close>.
\<close>

theorem parse_with_llm_failure:
  assumes "strip ocr_text \<noteq> []"
  shows "(\<forall>e. llm env (parse_prompt env ocr_text) = Inl e \<longrightarrow>
            product_name (fst (parse_with_llm env now ocr_text)) = ''Parsing failed''
          \<and> confidence_score (fst (parse_with_llm env now ocr_text)) = 0.1
          \<and> raw_text (fst (parse_with_llm env now ocr_text)) = ocr_text)
       \<and> (\<forall>response e. llm env (parse_prompt env ocr_text) = Inr response
              \<and> parse_body env now response = Inl e \<longrightarrow>
            product_name (fst (parse_with_llm env now ocr_text)) = ''Unknown Product''
          \<and> confidence_score (fst (parse_with_llm env now ocr_text)) = 0.1
          \<and> raw_text (fst (parse_with_llm env now ocr_text)) = ocr_text)"
  using assms
  by (auto simp: parse_with_llm_raise parse_with_llm_reply parsing_failed_def parse_def
      unknown_product_def)

theorem parse_with_llm_failure_witness:
  "product_name (fst (parse_with_llm
       (fixture (Some 0) (Inr 500) (Inr 127) ''Tea 300'' (Inl (LibraryError ''timeout''))) 0 ''Tea 300''))
     = ''Parsing failed''
   \<and> confidence_score (fst (parse_with_llm
       (fixture (Some 0) (Inr 500) (Inr 127) ''Tea 300'' (Inl (LibraryError ''timeout''))) 0 ''Tea 300''))
     = 0.1
   \<and> raw_text (fst (parse_with_llm
       (fixture (Some 0) (Inr 500) (Inr 127) ''Tea 300'' (Inl (LibraryError ''timeout''))) 0 ''Tea 300''))
     = ''Tea 300''
   \<and> product_name (fst (parse_with_llm
       (fixture (Some 0) (Inr 500) (Inr 127) ''Tea 300'' (Inr ''hello'')) 0 ''Tea 300''))
     = ''Unknown Product''
   \<and> confidence_score (fst (parse_with_llm
       (fixture (Some 0) (Inr 500) (Inr 127) ''Tea 300'' (Inr ''hello'')) 0 ''Tea 300''))
     = 0.1
   \<and> raw_text (fst (parse_with_llm
       (fixture (Some 0) (Inr 500) (Inr 127) ''Tea 300'' (Inr ''hello'')) 0 ''Tea 300''))
     = ''Tea 300''"
proof -
  let ?env = "fixture (Some 0) (Inr 500) (Inr 127) ''Tea 300'' (Inl (LibraryError ''timeout''))"
  let ?env' = "fixture (Some 0) (Inr 500) (Inr 127) ''Tea 300'' (Inr ''hello'')"
  have s: "strip ''Tea 300'' \<noteq> []" by (simp add: strip_fixtures)
  have l: "llm ?env (parse_prompt ?env ''Tea 300'') = Inl (LibraryError ''timeout'')"
    by (simp add: fixture_llm)
  have l': "llm ?env' (parse_prompt ?env' ''Tea 300'') = Inr ''hello''"
    by (simp add: fixture_llm)
  have p: "parse_body ?env' 0 ''hello'' = Inl (ValidationError ''product_name: field required'')"
    by (simp add: parse_body_def startswith_brace_fixtures regex_kwargs_eq re_hello
        ProductData_of_kwargs_def del: re_search.simps)
  from parse_with_llm_failure [OF s, of ?env 0] parse_with_llm_failure [OF s, of ?env' 0] l l' p
  show ?thesis by blast
qed

section \<open>The regular-expression fallback\<close>




text \<open>
  A response contains the two lines of \<open>rice_reply\<close> as its first matches when the text
  before them holds no letter p and they end the response or are followed by a line
  break: the product-name pattern then captures "Rice 5kg" and the price pattern "450".
\<close>

lemma ascii_lower_p: "ascii_lower c = CHR ''p'' \<longleftrightarrow> c = CHR ''p'' \<or> c = CHR ''P''"
proof (cases "(65::nat) \<le> of_char c \<and> of_char c \<le> (90::nat)")
  case True
  have "char_of (of_char c + (32::nat)) = CHR ''p'' \<longleftrightarrow> c = CHR ''P''"
  proof
    assume "char_of (of_char c + (32::nat)) = CHR ''p''"
    then have "(of_char (char_of (of_char c + (32::nat))) :: nat) = of_char CHR ''p''" by simp
    then have "(of_char c + (32::nat)) mod 256 = 112" by (simp add: of_char_of)
    with True have "(of_char c :: nat) = of_char CHR ''P''" by simp
    then show "c = CHR ''P''" by (simp only: of_char_eq_iff)
  next
    assume c: "c = CHR ''P''"
    have "char_of (of_char CHR ''P'' + (32::nat)) = CHR ''p''" by code_simp
    then show "char_of (of_char c + (32::nat)) = CHR ''p''" unfolding c .
  qed
  moreover have "c \<noteq> CHR ''p''" using True by auto
  ultimately show ?thesis using True by (simp add: ascii_lower_def)
next
  case False
  then show ?thesis by (auto simp: ascii_lower_def)
qed

lemma atom_match_p: "atom_match True (A (Ch CHR ''p'')) c \<longleftrightarrow> c = CHR ''p'' \<or> c = CHR ''P''"
proof -
  have p: "ascii_lower CHR ''p'' = CHR ''p''" by (simp add: ascii_lower_def)
  show ?thesis by (auto simp: p ascii_lower_p)
qed

lemma match_at_first_fails:
  "\<not> atom_match ic a c \<Longrightarrow> match_at ic ((a, Once) # r) grp (c # cs) = None"
  by (simp add: match_at_def)

lemma re_search_skip:
  "\<forall>c\<in>set pre. \<not> atom_match ic a c \<Longrightarrow>
     re_search ic ((a, Once) # r) grp (pre @ s) = re_search ic ((a, Once) # r) grp s"
  by (induction pre) (simp_all add: match_at_first_fails del: bt.simps)


lemma ascii_lower_table:
  "ascii_lower (CHR 0x0A) = CHR 0x0A"
  "ascii_lower (CHR '' '') = CHR '' ''"
  "ascii_lower (CHR ''.'') = CHR ''.''"
  "ascii_lower (CHR ''0'') = CHR ''0''"
  "ascii_lower (CHR ''4'') = CHR ''4''"
  "ascii_lower (CHR ''5'') = CHR ''5''"
  "ascii_lower (CHR '':'') = CHR '':''"
  "ascii_lower (CHR ''N'') = CHR ''n''"
  "ascii_lower (CHR ''P'') = CHR ''p''"
  "ascii_lower (CHR ''R'') = CHR ''r''"
  "ascii_lower (CHR ''_'') = CHR ''_''"
  "ascii_lower (CHR ''a'') = CHR ''a''"
  "ascii_lower (CHR ''c'') = CHR ''c''"
  "ascii_lower (CHR ''d'') = CHR ''d''"
  "ascii_lower (CHR ''e'') = CHR ''e''"
  "ascii_lower (CHR ''g'') = CHR ''g''"
  "ascii_lower (CHR ''i'') = CHR ''i''"
  "ascii_lower (CHR ''k'') = CHR ''k''"
  "ascii_lower (CHR ''m'') = CHR ''m''"
  "ascii_lower (CHR ''n'') = CHR ''n''"
  "ascii_lower (CHR ''o'') = CHR ''o''"
  "ascii_lower (CHR ''p'') = CHR ''p''"
  "ascii_lower (CHR ''r'') = CHR ''r''"
  "ascii_lower (CHR ''t'') = CHR ''t''"
  "ascii_lower (CHR ''u'') = CHR ''u''"
  by code_simp+

lemma match_at_name_rice:
  "match_at True name_label rest_of_line (rice_reply @ post) = Some ''Rice 5kg''"
  by (simp add: rice_reply_def name_label_def lit_def sep_def rest_of_line_def match_at_def
        isspace_def whitespace_def ascii_lower_table)

lemma rice_name_anywhere:
  assumes "\<forall>c\<in>set pre. c \<noteq> CHR ''p'' \<and> c \<noteq> CHR ''P''"
  shows "re_search True name_label rest_of_line (pre @ rice_reply @ post) = Some ''Rice 5kg''"
proof -
  have l: "name_label = (A (Ch CHR ''p''), Once) # tl name_label"
    by (simp add: name_label_def lit_def)
  have np: "\<forall>c\<in>set pre. \<not> atom_match True (A (Ch CHR ''p'')) c"
    using assms unfolding atom_match_p by blast
  have "re_search True name_label rest_of_line (pre @ rice_reply @ post)
      = re_search True name_label rest_of_line (rice_reply @ post)"
    by (subst l, subst (2) l) (rule re_search_skip [OF np])
  also have "\<dots> = Some ''Rice 5kg''"
  proof -
    obtain c cs where c: "rice_reply @ post = c # cs" by (simp add: rice_reply_def)
    show ?thesis using match_at_name_rice [of post] unfolding c by simp
  qed
  finally show ?thesis .
qed


lemma match_at_price_line:
  assumes "post = [] \<or> hd post = CHR 0x0A"
  shows "match_at True price_label number (''Price: 450'' @ post) = Some ''450''"
proof (cases post)
  case Nil
  then show ?thesis
    by (simp add: price_label_def lit_def sep_def number_def match_at_def
        isspace_def whitespace_def isdigit_def ascii_lower_table)
next
  case (Cons c t)
  with assms have c: "c = CHR 0x0A" by simp
  show ?thesis unfolding Cons c
    by (simp add: price_label_def lit_def sep_def number_def match_at_def
        isspace_def whitespace_def isdigit_def ascii_lower_table)
qed

lemma match_at_price_head:
  "match_at True price_label number (''Product Name: Rice 5kg'' @ s) = None"
  by (simp add: price_label_def lit_def sep_def match_at_def ascii_lower_table)

lemma rice_price_anywhere:
  assumes "\<forall>c\<in>set pre. c \<noteq> CHR ''p'' \<and> c \<noteq> CHR ''P''"
      and "post = [] \<or> hd post = CHR 0x0A"
  shows "re_search True price_label number (pre @ rice_reply @ post) = Some ''450''"
proof -
  let ?line = "''Price: 450'' @ post"
  have l: "price_label = (A (Ch CHR ''p''), Once) # tl price_label"
    by (simp add: price_label_def lit_def)
  have np: "\<forall>c\<in>set pre. \<not> atom_match True (A (Ch CHR ''p'')) c"
    using assms(1) unfolding atom_match_p by blast
  have nq: "\<forall>c\<in>set (''roduct Name: Rice 5kg'' @ [CHR 0x0A]). \<not> atom_match True (A (Ch CHR ''p'')) c"
    unfolding atom_match_p by simp
  have r: "rice_reply @ post = CHR ''P'' # (''roduct Name: Rice 5kg'' @ [CHR 0x0A]) @ ?line"
    by (simp add: rice_reply_def)
  have "re_search True price_label number (pre @ rice_reply @ post)
      = re_search True price_label number (rice_reply @ post)"
    by (subst l, subst (2) l) (rule re_search_skip [OF np])
  also have "\<dots> = re_search True price_label number ((''roduct Name: Rice 5kg'' @ [CHR 0x0A]) @ ?line)"
    unfolding r using match_at_price_head [of "[CHR 0x0A] @ ?line"] by simp
  also have "\<dots> = re_search True price_label number ?line"
    by (subst l, subst (2) l) (rule re_search_skip [OF nq])
  also have "\<dots> = Some ''450''"
  proof -
    obtain c cs where c: "?line = c # cs" by simp
    show ?thesis using match_at_price_line [OF assms(2)] unfolding c by simp
  qed
  finally show ?thesis .
qed

lemma rice_lines_parse:
  assumes "\<forall>c\<in>set pre. c \<noteq> CHR ''p'' \<and> c \<noteq> CHR ''P''"
      and "post = [] \<or> hd post = CHR 0x0A"
      and "\<not> startswith_brace (pre @ rice_reply @ post)"
  shows "product_name (parse env now (pre @ rice_reply @ post)) = ''Rice 5kg''
       \<and> price (parse env now (pre @ rice_reply @ post)) = Some (Num 450)
       \<and> confidence_score (parse env now (pre @ rice_reply @ post)) = 0.7"
  using assms(3)
  by (simp add: parse_regex rice_name_anywhere [OF assms(1)]
      rice_price_anywhere [OF assms(1,2)] strip_fixtures decimal_value_fixtures
      del: re_search.simps)

text \<open>
  The claim about the regular-expression path fails twice. On the response
  \<open>Price: 450\<close> one field matches, the product name does not, and the confidence of the
  result is 0.1. On \<open>shadowed_reply\<close>, which contains both lines of the claim after a
  line \<open>Price: 10\<close>, the price of the result is 10.
\<close>

theorem regex_confidence_counterexample:
  "\<not> startswith_brace ''Price: 450''
   \<and> re_search True price_label number ''Price: 450'' = Some ''450''
   \<and> confidence_score (parse (fixture (Some 0) (Inr 500) (Inr 127) ''Tea 300'' (Inr ''Price: 450'')) 0 ''Price: 450'')
       = 0.1
   \<and> confidence_score (parse (fixture (Some 0) (Inr 500) (Inr 127) ''Tea 300'' (Inr ''Price: 450'')) 0 ''Price: 450'')
       \<noteq> 0.7
   \<and> \<not> startswith_brace shadowed_reply
   \<and> price (parse (fixture (Some 0) (Inr 500) (Inr 127) ''Tea 300'' (Inr shadowed_reply)) 0 shadowed_reply)
       = Some (Num 10)
   \<and> price (parse (fixture (Some 0) (Inr 500) (Inr 127) ''Tea 300'' (Inr shadowed_reply)) 0 shadowed_reply)
       \<noteq> Some (Num 450)"
  by (simp add: startswith_brace_fixtures parse_regex re_price_only re_shadowed unknown_product_def
      decimal_value_fixtures del: re_search.simps)

text \<open>
  C6, as amended. On a response without a leading brace in which the product-name pattern
  matches, the regular-expression path returns confidence 0.7, however many of the other
  fields match; when the first product-name match captures "Rice 5kg" the product name is
  "Rice 5kg", and when the first price match captures "450" the price is 450.0. The
  response made of the lines "Product Name: Rice 5kg" and "Price: 450" is such a response.
\<close>

theorem regex_fallback_rice:
  assumes "\<not> startswith_brace text0"
      and "re_search True name_label rest_of_line text0 = Some n"
  shows "confidence_score (parse env now text0) = 0.7
       \<and> (n = ''Rice 5kg'' \<longrightarrow> product_name (parse env now text0) = ''Rice 5kg'')
       \<and> (re_search True price_label number text0 = Some ''450''
            \<longrightarrow> price (parse env now text0) = Some (Num 450))"
  using assms
  by (simp add: parse_regex strip_fixtures decimal_value_fixtures del: re_search.simps)

theorem regex_fallback_rice_witness:
  "confidence_score (parse (fixture (Some 0) (Inr 500) (Inr 127) ''Rice'' (Inr rice_reply)) 0 rice_reply) = 0.7
   \<and> product_name (parse (fixture (Some 0) (Inr 500) (Inr 127) ''Rice'' (Inr rice_reply)) 0 rice_reply)
       = ''Rice 5kg''
   \<and> price (parse (fixture (Some 0) (Inr 500) (Inr 127) ''Rice'' (Inr rice_reply)) 0 rice_reply)
       = Some (Num 450)"
  using regex_fallback_rice [OF startswith_brace_fixtures(2) re_rice(1),
      of "fixture (Some 0) (Inr 500) (Inr 127) ''Rice'' (Inr rice_reply)" 0]
    re_rice(3)
  by blast

section \<open>The pipeline\<close>

text \<open>
  C1. For an image file that cannot be decoded the pipeline is to abort with
  \<^verbatim>\<open>success = False\<close>, a failure reason and no product record. The code does not: the
  \<^verbatim>\<open>ValueError\<close> that \<^verbatim>\<open>_preprocess_image\<close> raises for the unreadable image is caught by the
  handler of the same method, which reads the file again and returns \<open>None\<close>; the run goes
  on and ends with \<^verbatim>\<open>success = True\<close>, a product record and no error message.
\<close>

theorem process_image_undecodable:
  assumes "cv2_imread env image_path = Inr None"
  shows "success (fst (process_image env t0 now t1 image_path gps)) = True
         \<and> product_data (fst (process_image env t0 now t1 image_path gps)) \<noteq> None
         \<and> error_message (fst (process_image env t0 now t1 image_path gps)) = None"
proof -
  have "preprocess_image env image_path = Inr None"
    using assms by (simp add: preprocess_image_def preprocess_body_def)
  then show ?thesis
    by (simp add: process_image_def Let_def split: prod.splits)
qed

theorem process_image_undecodable_witness:
  "success (fst (process_image (fixture None (Inr 0) (Inr 0) [] (Inr [])) 0 0 1 ''corrupt.jpg'' None)) = True
   \<and> product_data (fst (process_image (fixture None (Inr 0) (Inr 0) [] (Inr [])) 0 0 1 ''corrupt.jpg'' None))
       \<noteq> None
   \<and> error_message (fst (process_image (fixture None (Inr 0) (Inr 0) [] (Inr [])) 0 0 1 ''corrupt.jpg'' None))
       = None"
proof -
  have "cv2_imread (fixture None (Inr 0) (Inr 0) [] (Inr [])) ''corrupt.jpg'' = Inr None"
    by (simp add: fixture_def)
  then show ?thesis by (rule process_image_undecodable)
qed

text \<open>The whole result of that run: the record of the short circuit and the neutral quality.\<close>

lemma corrupt_run:
  "process_image (fixture None (Inr 0) (Inr 0) [] (Inr [])) 0 0 1 ''corrupt.jpg'' None =
     (\<lparr>success = True, product_data = Some (no_text_detected 0), error_message = None,
       processing_time_ms = 1000, image_quality_score = Some 0.5\<rparr>, [])"
  by (simp add: process_image_def fixture_preprocess fixture_quality fixture_extract
      parse_with_llm_blank strip_Nil no_text_detected_def py_int_def)

lemma tea_run:
  "process_image (fixture (Some 0) (Inr 500) (Inr 127) ''Tea 300'' (Inr tea_reply)) 0 0 1 ''tag.jpg'' None =
     (\<lparr>success = True,
       product_data = Some \<lparr>product_name = ''Tea'', brand = None, price = None, unit = None,
         shop_name = None, category = None, confidence_score = 5, raw_text = ''Tea 300'',
         processing_timestamp = 0, gps_latitude = None, gps_longitude = None\<rparr>,
       error_message = None, processing_time_ms = 1000, image_quality_score = Some 1\<rparr>,
      [''OCR Text from image: Tea 300''])"
proof -
  let ?env = "fixture (Some 0) (Inr 500) (Inr 127) ''Tea 300'' (Inr tea_reply)"
  have "parse_with_llm ?env 0 ''Tea 300'' =
      ((parse ?env 0 tea_reply)\<lparr>raw_text := ''Tea 300''\<rparr>, [''OCR Text from image: Tea 300''])"
    using parse_with_llm_reply [of "''Tea 300''" ?env tea_reply 0]
    by (simp add: strip_fixtures fixture_llm)
  then show ?thesis
    by (simp add: process_image_def fixture_preprocess fixture_quality fixture_extract
        parse_tea py_int_def Let_def)
qed

text \<open>
  The claim that the confidence of a successful run lies in [0, 1] fails when the model
  reports a confidence of 5 for a sharp, evenly lit image: the class accepts the number,
  the quality score is 1, and the product of the run carries the confidence 5.
\<close>

theorem confidence_range_counterexample:
  "success (fst (process_image (fixture (Some 0) (Inr 500) (Inr 127) ''Tea 300'' (Inr tea_reply))
       0 0 1 ''tag.jpg'' None)) = True
   \<and> map_option confidence_score
        (product_data (fst (process_image (fixture (Some 0) (Inr 500) (Inr 127) ''Tea 300'' (Inr tea_reply))
           0 0 1 ''tag.jpg'' None)))
       = Some 5
   \<and> \<not> (5::real) \<le> 1"
  by (simp add: tea_run)

text \<open>
  C2, as amended. In every successful run the confidence of the returned product is the
  confidence the structured extractor reported, multiplied by the image quality only when
  it is positive, and it never exceeds the reported confidence. When the reported
  confidence lies in [0, 1] and the quality score is not negative, the returned confidence
  lies in [0, 1].
\<close>

theorem confidence_never_raised:
  assumes "success (fst (process_image env t0 now t1 image_path gps))"
  shows "\<exists>pd img.
           product_data (fst (process_image env t0 now t1 image_path gps)) = Some pd
         \<and> preprocess_image env image_path = Inr img
         \<and> (let c0 = confidence_score
                        (fst (parse_with_llm env now (extract_text_with_vision_api env image_path)));
                 q = assess_image_quality env img
             in confidence_score pd = (if 0 < c0 then c0 * q else c0)
                \<and> confidence_score pd \<le> c0
                \<and> (0 \<le> c0 \<and> c0 \<le> 1 \<and> 0 \<le> q
                     \<longrightarrow> 0 \<le> confidence_score pd \<and> confidence_score pd \<le> 1))"
proof (cases "preprocess_image env image_path")
  case (Inl e)
  with assms show ?thesis by (simp add: process_image_def)
next
  case (Inr img)
  define c0 where
    "c0 = confidence_score (fst (parse_with_llm env now (extract_text_with_vision_api env image_path)))"
  define q where "q = assess_image_quality env img"
  define pd where
    "pd = the (product_data (fst (process_image env t0 now t1 image_path gps)))"
  have pd: "product_data (fst (process_image env t0 now t1 image_path gps)) = Some pd"
    using Inr by (simp add: pd_def process_image_def Let_def split: prod.splits)
  have c: "confidence_score pd = (if 0 < c0 then c0 * q else c0)"
    using Inr
    by (simp add: pd_def c0_def q_def process_image_def Let_def split: prod.splits option.splits)
  have q1: "q \<le> 1" unfolding q_def by (rule assess_image_quality_le_1)
  have le: "confidence_score pd \<le> c0"
  proof (cases "0 < c0")
    case True
    then have "c0 * q \<le> c0 * 1" using q1 by (intro mult_left_mono) simp_all
    then show ?thesis using True c by simp
  next
    case False
    then show ?thesis using c by simp
  qed
  have rng: "0 \<le> confidence_score pd \<and> confidence_score pd \<le> 1"
    if "0 \<le> c0 \<and> c0 \<le> 1 \<and> 0 \<le> q"
  proof -
    have "0 \<le> confidence_score pd" using that c by (cases "0 < c0") simp_all
    moreover have "confidence_score pd \<le> 1" using le that by simp
    ultimately show ?thesis by simp
  qed
  show ?thesis
    using pd Inr c le rng unfolding c0_def q_def Let_def by blast
qed

theorem confidence_never_raised_witness:
  "\<exists>pd. product_data (fst (process_image (fixture (Some 0) (Inr 250) (Inr 127) ''Rice'' (Inr rice_reply))
                0 0 1 ''tag.jpg'' None)) = Some pd
        \<and> confidence_score pd = 0.7 * 0.65
        \<and> confidence_score pd \<le> 0.7 \<and> 0 \<le> confidence_score pd \<and> confidence_score pd \<le> 1"
proof -
  let ?env = "fixture (Some 0) (Inr 250) (Inr 127) ''Rice'' (Inr rice_reply)"
  have s: "success (fst (process_image ?env 0 0 1 ''tag.jpg'' None))"
    by (simp add: process_image_def fixture_preprocess Let_def split: prod.splits)
  have "strip ''Rice'' \<noteq> []" by (simp add: strip_fixtures)
  then have c0: "confidence_score (fst (parse_with_llm ?env 0 (extract_text_with_vision_api ?env ''tag.jpg''))) = 0.7"
    by (simp add: fixture_extract parse_with_llm_reply fixture_llm parse_rice)
  have q: "assess_image_quality ?env (Some 0) = 0.65"
    by (simp add: fixture_quality)
  have pre: "preprocess_image ?env ''tag.jpg'' = Inr (Some 0)"
    by (rule fixture_preprocess)
  from confidence_never_raised [OF s] obtain pd img where
    pd: "product_data (fst (process_image ?env 0 0 1 ''tag.jpg'' None)) = Some pd" and
    img: "preprocess_image ?env ''tag.jpg'' = Inr img" and
    rel: "(let c0 = confidence_score (fst (parse_with_llm ?env 0 (extract_text_with_vision_api ?env ''tag.jpg'')));
          q = assess_image_quality ?env img
      in confidence_score pd = (if 0 < c0 then c0 * q else c0)
         \<and> confidence_score pd \<le> c0
         \<and> (0 \<le> c0 \<and> c0 \<le> 1 \<and> 0 \<le> q \<longrightarrow> 0 \<le> confidence_score pd \<and> confidence_score pd \<le> 1))"
    by blast
  from img pre have i: "img = Some 0" by simp
  have "confidence_score pd = (if (0::real) < 0.7 then 0.7 * 0.65 else 0.7)
      \<and> confidence_score pd \<le> 0.7
      \<and> ((0::real) \<le> 0.7 \<and> (0.7::real) \<le> 1 \<and> (0::real) \<le> 0.65
           \<longrightarrow> 0 \<le> confidence_score pd \<and> confidence_score pd \<le> 1)"
    using rel unfolding i Let_def c0 q .
  then have "confidence_score pd = 0.7 * 0.65 \<and> confidence_score pd \<le> 0.7
      \<and> 0 \<le> confidence_score pd \<and> confidence_score pd \<le> 1"
    by simp
  with pd show ?thesis by blast
qed

section \<open>The validator\<close>


lemma flt_NaN_outside:
  "\<not> (flt_le (Num 1) NaN \<and> flt_le NaN (Num 100000))"
  "\<not> flt_less NaN (Num 1)"
  "\<not> flt_less (Num 100000) NaN"
  by (simp_all add: flt_le_def)




end
